theory Spec2Isabelle
  imports Main
begin

section \<open>The deployment script \<open>deploy.py\<close>\<close>

text \<open>
  \<open>deploy.py\<close> is a linear script: it checks the interpreter version, asks the operator
  for credentials and writes them into \<open>.env\<close>, installs the dependencies with pip,
  creates three directories, runs a smoke test and finally dispatches on a deployment
  choice. Everything it does is an effect: reading standard input, printing, writing
  files, creating directories, starting child processes, raising exceptions.

  The embedding makes these effects explicit. A procedure of the script is a function
  from the state of the process to a result and the state it leaves. The result is
  either a value or the exception that was raised, and the state is returned in both
  cases, so that what was printed, written and started before an exception is visible.
\<close>

subsection \<open>Exceptions\<close>

text \<open>
  The exceptions that the script and the library calls it makes can raise.
  \<open>CalledProcessError cmd returncode stdout stderr\<close> and \<open>TimeoutExpired cmd timeout\<close>
  carry the fields of the Python classes.
\<close>

datatype exn =
    SystemExit int
  | EOFError
  | CalledProcessError "string list" int string string
  | TimeoutExpired "string list" nat
  | FileNotFoundError string
  | FileExistsError string
  | IsADirectoryError string
  | KeyError string
  | ValueError string

text \<open>\<open>except subprocess.CalledProcessError\<close> and \<open>except Exception\<close>: the classes a handler accepts.
  \<open>SystemExit\<close> derives from \<open>BaseException\<close> only.\<close>

fun is_CalledProcessError :: "exn \<Rightarrow> bool" where
  "is_CalledProcessError (CalledProcessError cmd rc out err) = True"
| "is_CalledProcessError _ = False"

fun is_Exception :: "exn \<Rightarrow> bool" where
  "is_Exception (SystemExit n) = False"
| "is_Exception _ = True"

text \<open>\<open>e.stderr\<close> of a \<open>CalledProcessError\<close>.\<close>

fun stderr_of :: "exn \<Rightarrow> string" where
  "stderr_of (CalledProcessError cmd rc out err) = err"
| "stderr_of _ = []"

subsection \<open>The process state and its environment\<close>

text \<open>
  The current directory holds regular files and directories under their names.
  \<open>stdin\<close> is the text not yet read, \<open>stdout\<close> the chunks written so far (one per
  \<open>print\<close> or prompt), \<open>calls\<close> the command lines of the child processes started so far.
\<close>

datatype node = File string | Dir

record state =
  stdin :: string
  stdout :: "string list"
  fs :: "string \<rightharpoonup> node"
  calls :: "string list list"

text \<open>
  What the script reads but never changes: the interpreter (\<open>sys.version_info\<close>,
  \<open>sys.version\<close>, \<open>sys.executable\<close>), \<open>os.getcwd()\<close>, \<open>os.getenv("USER")\<close>, and the
  behaviour of the child processes. \<open>spawn\<close> tells for a command line whether the
  program exists and, if so, how it ends (exit status, captured output, captured error
  text) and after how many seconds. \<open>exn_text\<close> is Python's \<open>str(e)\<close> of an exception,
  a function of the runtime library.
\<close>

record completed =
  returncode :: int
  captured_out :: string
  captured_err :: string

datatype launch = Ran completed nat | NoSuchProgram

record env =
  version_major :: nat
  version_minor :: nat
  sys_version :: string
  sys_executable :: string
  cwd :: string
  user :: "string option"
  spawn :: "string list \<Rightarrow> launch"
  exn_text :: "exn \<Rightarrow> string"

type_synonym 'a proc = "state \<Rightarrow> (exn + 'a) \<times> state"

definition return :: "'a \<Rightarrow> 'a proc" where
  "return x s = (Inr x, s)"

definition raise :: "exn \<Rightarrow> 'a proc" where
  "raise e s = (Inl e, s)"

definition bind :: "'a proc \<Rightarrow> ('a \<Rightarrow> 'b proc) \<Rightarrow> 'b proc" where
  "bind m f s = (case m s of (Inl e, s') \<Rightarrow> (Inl e, s') | (Inr x, s') \<Rightarrow> f x s')"

definition then_do :: "'a proc \<Rightarrow> 'b proc \<Rightarrow> 'b proc" where
  "then_do m k = bind m (\<lambda>_. k)"

text \<open>A sequence of statements: the first exception ends it.\<close>

fun block :: "unit proc list \<Rightarrow> unit proc" where
  "block [] = return ()"
| "block (m # ms) = then_do m (block ms)"

text \<open>\<open>for x in xs: body(x)\<close>.\<close>

fun for_each :: "('a \<Rightarrow> unit proc) \<Rightarrow> 'a list \<Rightarrow> unit proc" where
  "for_each body [] = return ()"
| "for_each body (x # xs) = then_do (body x) (for_each body xs)"

text \<open>\<open>try: body  except <class> as e: handler(e)\<close>. An exception of another class
  passes through.\<close>

definition try_except :: "'a proc \<Rightarrow> (exn \<Rightarrow> bool) \<Rightarrow> (exn \<Rightarrow> 'a proc) \<Rightarrow> 'a proc" where
  "try_except body handles handler s =
     (case body s of
        (Inl e, s') \<Rightarrow> if handles e then handler e s' else (Inl e, s')
      | (Inr x, s') \<Rightarrow> (Inr x, s'))"

text \<open>A computation without effect that may raise.\<close>

definition of_result :: "exn + 'a \<Rightarrow> 'a proc" where
  "of_result r s = (r, s)"

subsection \<open>Strings\<close>

text \<open>
  A string is a list of bytes; text outside ASCII stands in its UTF-8 encoding.
  The pictographs that start many messages of the script are named here.
\<close>

definition nl :: char where "nl = CHR 0x0A"
definition apostrophe :: char where "apostrophe = CHR 0x27"

definition rocket :: string where "rocket = [CHR 0xF0, CHR 0x9F, CHR 0x9A, CHR 0x80]"
definition cross_mark :: string where "cross_mark = [CHR 0xE2, CHR 0x9D, CHR 0x8C]"
definition check_mark :: string where "check_mark = [CHR 0xE2, CHR 0x9C, CHR 0x85]"
definition warning_sign :: string where
  "warning_sign = [CHR 0xE2, CHR 0x9A, CHR 0xA0, CHR 0xEF, CHR 0xB8, CHR 0x8F]"
definition key_sign :: string where "key_sign = [CHR 0xF0, CHR 0x9F, CHR 0x94, CHR 0x91]"
definition money_bag :: string where "money_bag = [CHR 0xF0, CHR 0x9F, CHR 0x92, CHR 0xB0]"
definition e_mail :: string where "e_mail = [CHR 0xF0, CHR 0x9F, CHR 0x93, CHR 0xA7]"
definition package :: string where "package = [CHR 0xF0, CHR 0x9F, CHR 0x93, CHR 0xA6]"
definition test_tube :: string where "test_tube = [CHR 0xF0, CHR 0x9F, CHR 0xA7, CHR 0xAA]"
definition folder :: string where "folder = [CHR 0xF0, CHR 0x9F, CHR 0x93, CHR 0x81]"
definition locomotive :: string where "locomotive = [CHR 0xF0, CHR 0x9F, CHR 0x9A, CHR 0x82]"
definition palette :: string where "palette = [CHR 0xF0, CHR 0x9F, CHR 0x8E, CHR 0xA8]"
definition whale :: string where "whale = [CHR 0xF0, CHR 0x9F, CHR 0x90, CHR 0xB3]"
definition computer :: string where "computer = [CHR 0xF0, CHR 0x9F, CHR 0x92, CHR 0xBB]"
definition party :: string where "party = [CHR 0xF0, CHR 0x9F, CHR 0x8E, CHR 0x89]"
definition bar_chart :: string where "bar_chart = [CHR 0xF0, CHR 0x9F, CHR 0x93, CHR 0x8A]"

text \<open>\<open>"=" * n\<close>.\<close>

definition rule_line :: "nat \<Rightarrow> string" where
  "rule_line n = replicate n (CHR ''='')"

text \<open>\<open>str(n)\<close> of a natural number.\<close>

fun str_nat :: "nat \<Rightarrow> string" where
  "str_nat n =
     (if n < 10 then [''0123456789'' ! n]
      else str_nat (n div 10) @ [''0123456789'' ! (n mod 10)])"

declare str_nat.simps [simp del]

text \<open>
  \<open>str.strip()\<close> removes the white space at both ends. Among the bytes of ASCII,
  \<open>str.isspace\<close> holds of the tab, the line feed, the vertical tab, the form feed, the
  carriage return, the four separators \<open>0x1C\<close> to \<open>0x1F\<close> and the space. White space
  outside ASCII, such as the no-break space, is several bytes here and is not removed:
  the model is exact for answers whose ends are ASCII.
\<close>

definition isspace :: "char \<Rightarrow> bool" where
  "isspace c = (c \<in> set [CHR 0x09, CHR 0x0A, CHR 0x0B, CHR 0x0C, CHR 0x0D,
                          CHR 0x1C, CHR 0x1D, CHR 0x1E, CHR 0x1F, CHR 0x20])"

definition strip :: "string \<Rightarrow> string" where
  "strip s = rev (dropWhile isspace (rev (dropWhile isspace s)))"

definition startswith :: "string \<Rightarrow> string \<Rightarrow> bool" where
  "startswith s p = (take (length p) s = p)"

text \<open>\<open>x or d\<close> on strings: the empty string is false.\<close>

definition or_default :: "string \<Rightarrow> string \<Rightarrow> string" where
  "or_default x d = (if x = [] then d else x)"

text \<open>\<open>str(x)\<close> of an optional string: \<open>None\<close> prints as its name.\<close>

definition str_opt :: "string option \<Rightarrow> string" where
  "str_opt x = (case x of None \<Rightarrow> ''None'' | Some v \<Rightarrow> v)"

text \<open>A text of lines, each ended by a line feed.\<close>

definition unlines :: "string list \<Rightarrow> string" where
  "unlines ls = concat (map (\<lambda>l. l @ [nl]) ls)"

text \<open>
  \<open>template.format(**kw)\<close> for the replacement fields the script uses: \<open>{name}\<close> is
  replaced by the keyword argument of that name as it is, \<open>{{\<close> and \<open>}}\<close> stand for a
  brace, a brace alone is a \<open>ValueError\<close> and a name without argument a \<open>KeyError\<close>.
  The value that replaces a field is not scanned again.
\<close>

function format_str :: "(string \<rightharpoonup> string) \<Rightarrow> string \<Rightarrow> exn + string" where
  "format_str kw [] = Inr []"
| "format_str kw (c # cs) =
     (if c = CHR ''{'' then
        (case cs of
           [] \<Rightarrow> Inl (ValueError ''Single { encountered in format string'')
         | d # r \<Rightarrow>
             if d = CHR ''{'' then map_sum id (Cons c) (format_str kw r)
             else
               (let name = takeWhile (\<lambda>x. x \<noteq> CHR ''}'') cs;
                    rest = dropWhile (\<lambda>x. x \<noteq> CHR ''}'') cs
                in if rest = [] then Inl (ValueError ''expected } before end of string'')
                   else (case kw name of
                           None \<Rightarrow> Inl (KeyError name)
                         | Some v \<Rightarrow> map_sum id (append v) (format_str kw (tl rest)))))
      else if c = CHR ''}'' then
        (case cs of
           [] \<Rightarrow> Inl (ValueError ''Single } encountered in format string'')
         | d # r \<Rightarrow>
             if d = CHR ''}'' then map_sum id (Cons c) (format_str kw r)
             else Inl (ValueError ''Single } encountered in format string''))
      else map_sum id (Cons c) (format_str kw cs))"
  by pat_completeness auto
termination
  by (relation "measure (\<lambda>(kw, s). length s)")
     (auto simp: less_Suc_eq_le le_SucI length_dropWhile_le intro: le_trans[OF diff_le_self])

subsection \<open>Input and output\<close>

text \<open>\<open>print(x)\<close> writes \<open>x\<close> and a line feed.\<close>

definition print :: "string \<Rightarrow> unit proc" where
  "print x s = (Inr (), s\<lparr>stdout := stdout s @ [x @ [nl]]\<rparr>)"

text \<open>
  \<open>input(prompt)\<close> writes the prompt and reads one line, without its line feed.
  At the end of the input it raises \<open>EOFError\<close>; a last line without line feed is
  returned as it is.
\<close>

definition read_line :: "string \<Rightarrow> string" where
  "read_line inp = takeWhile (\<lambda>c. c \<noteq> nl) inp"

definition after_line :: "string \<Rightarrow> string" where
  "after_line inp = drop 1 (dropWhile (\<lambda>c. c \<noteq> nl) inp)"

definition input :: "string \<Rightarrow> string proc" where
  "input prompt s =
     (let s1 = s\<lparr>stdout := stdout s @ [prompt]\<rparr>
      in if stdin s = [] then (Inl EOFError, s1)
         else (Inr (read_line (stdin s)), s1\<lparr>stdin := after_line (stdin s)\<rparr>))"

text \<open>
  \<open>with open(name, "w") as f: f.write(content)\<close> replaces the file or creates it;
  a directory of that name makes \<open>open\<close> raise.
\<close>

definition write_file :: "string \<Rightarrow> string \<Rightarrow> unit proc" where
  "write_file name content s =
     (case fs s name of
        Some Dir \<Rightarrow> (Inl (IsADirectoryError name), s)
      | _ \<Rightarrow> (Inr (), s\<lparr>fs := (fs s)(name \<mapsto> File content)\<rparr>))"

text \<open>
  \<open>Path(name).mkdir(exist_ok=True)\<close>: creates the directory; an existing directory is
  accepted, an existing regular file raises \<open>FileExistsError\<close>.
\<close>

definition mkdir_exist_ok :: "string \<Rightarrow> unit proc" where
  "mkdir_exist_ok name s =
     (case fs s name of
        None \<Rightarrow> (Inr (), s\<lparr>fs := (fs s)(name \<mapsto> Dir)\<rparr>)
      | Some Dir \<Rightarrow> (Inr (), s)
      | Some (File c) \<Rightarrow> (Inl (FileExistsError name), s))"

text \<open>
  \<open>subprocess.run(argv, check=..., timeout=...)\<close>. The command line is recorded. A
  missing program raises \<open>FileNotFoundError\<close>; a child that runs longer than the
  timeout raises \<open>TimeoutExpired\<close>; with \<open>check=True\<close> an exit status other than zero
  raises \<open>CalledProcessError\<close>. Otherwise the completed process is returned.
\<close>

definition subprocess_run ::
  "env \<Rightarrow> string list \<Rightarrow> bool \<Rightarrow> nat option \<Rightarrow> completed proc" where
  "subprocess_run e argv check timeout s =
     (let s1 = s\<lparr>calls := calls s @ [argv]\<rparr>
      in case spawn e argv of
           NoSuchProgram \<Rightarrow> (Inl (FileNotFoundError (concat (take 1 argv))), s1)
         | Ran r seconds \<Rightarrow>
             (case timeout of
                Some t \<Rightarrow>
                  if t < seconds then (Inl (TimeoutExpired argv t), s1)
                  else if check \<and> returncode r \<noteq> 0
                  then (Inl (CalledProcessError argv (returncode r)
                               (captured_out r) (captured_err r)), s1)
                  else (Inr r, s1)
              | None \<Rightarrow>
                  if check \<and> returncode r \<noteq> 0
                  then (Inl (CalledProcessError argv (returncode r)
                               (captured_out r) (captured_err r)), s1)
                  else (Inr r, s1)))"

text \<open>A call whose result is not used.\<close>

definition discard :: "'a proc \<Rightarrow> unit proc" where
  "discard m = bind m (\<lambda>_. return ())"


subsection \<open>The script\<close>

definition print_banner :: "unit proc" where
  "print_banner = block
     [print (rule_line 60),
      print (rocket @ '' MICROCAP QUANT - DEPLOYMENT SCRIPT''),
      print (rule_line 60),
      print ''AI-Powered Microcap Trading Bot'',
      print ''Version: 0.2.0'',
      print (rule_line 60)]"

text \<open>
  \<open>sys.version_info < (a, b)\<close>: tuples compare component by component, and
  \<open>sys.version_info\<close> has five components, so with equal first two it is the longer
  tuple and not the smaller one.
\<close>

definition version_below :: "env \<Rightarrow> nat \<Rightarrow> nat \<Rightarrow> bool" where
  "version_below e a b =
     (version_major e < a \<or> (version_major e = a \<and> version_minor e < b))"

definition check_python_version :: "env \<Rightarrow> unit proc" where
  "check_python_version e = block
     [if version_below e 3 9
      then block
        [print (cross_mark @ '' Error: Python 3.9+ required''),
         print (''Current version: '' @ sys_version e),
         raise (SystemExit 1)]
      else return (),
      print (check_mark @ '' Python '' @ str_nat (version_major e) @ ''.''
             @ str_nat (version_minor e) @ '' detected'')]"

definition env_template_lines :: "string list" where
  "env_template_lines = [
      ''# ============================================================================='',
      ''# MICROCAP QUANT - ENVIRONMENT VARIABLES'',
      ''# ============================================================================='',
      '''',
      ''# ============================================================================='',
      ''# AI API KEYS (Required)'',
      ''# ============================================================================='',
      '''',
      ''# OpenAI API Key (Required for GPT-4o and o3 deep research)'',
      ''# Get from: https://platform.openai.com/api-keys'',
      ''OPENAI_API_KEY={openai_key}'',
      '''',
      ''# Anthropic API Key (Optional - backup AI provider)'',
      ''# Get from: https://console.anthropic.com/'',
      ''ANTHROPIC_API_KEY={anthropic_key}'',
      '''',
      ''# Groq API Key (Optional - fast inference backup)'',
      ''# Get from: https://console.groq.com/'',
      ''GROQ_API_KEY={groq_key}'',
      '''',
      ''# ============================================================================='',
      ''# TRADING API KEYS (Required)'',
      ''# ============================================================================='',
      '''',
      ''# Alpaca Trading API Keys'',
      ''# Get from: https://alpaca.markets/ (Paper Trading for testing)'',
      ''ALPACA_API_KEY={alpaca_key}'',
      ''ALPACA_SECRET_KEY={alpaca_secret}'',
      '''',
      ''# ============================================================================='',
      ''# AI MODEL CONFIGURATION'',
      ''# ============================================================================='',
      '''',
      ''# Primary AI model for daily decisions (16:30 EST cycle)'',
      ''AI_PRIMARY_MODEL=gpt-4o'',
      '''',
      ''# Backup AI model if primary fails'',
      ''AI_BACKUP_MODEL=gpt-4'',
      '''',
      ''# Deep research model for pre-market analysis (09:30 EST cycle)'',
      ''AI_RESEARCH_MODEL=o3-deep-research-2025-06-26'',
      '''',
      ''# ============================================================================='',
      ''# TRADING CONFIGURATION'',
      ''# ============================================================================='',
      '''',
      ''# Set to false for live trading (default: true for safety)'',
      ''PAPER_TRADING=true'',
      '''',
      ''# Starting capital in USD'',
      ''STARTING_CASH={starting_cash}'',
      '''',
      ''# Maximum position size as percentage (0.15 = 15%)'',
      ''MAX_POSITION_PCT=0.15'',
      '''',
      ''# Stop loss percentage (0.15 = 15%)'',
      ''STOP_LOSS_PCT=0.15'',
      '''',
      ''# Maximum daily loss before circuit breaker (0.05 = 5%)'',
      ''MAX_DAILY_LOSS=0.05'',
      '''',
      ''# ============================================================================='',
      ''# NOTIFICATIONS (Optional)'',
      ''# ============================================================================='',
      '''',
      ''# Slack webhook for alerts'',
      ''SLACK_WEBHOOK={slack_webhook}'',
      '''',
      ''# Email notifications (requires SMTP setup)'',
      ''EMAIL_ALERTS=false'',
      ''EMAIL_FROM={email_from}'',
      ''EMAIL_TO={email_to}'',
      ''EMAIL_PASSWORD={email_password}'',
      '''',
      ''# ============================================================================='',
      ''# ADVANCED SETTINGS'',
      ''# ============================================================================='',
      '''',
      ''# Market cap maximum for microcap universe ($300M default)'',
      ''MARKET_CAP_MAX=300000000'',
      '''',
      ''# Minimum daily volume filter ($50K default)'',
      ''MIN_VOLUME=50000'',
      '''',
      ''# Timezone for trading schedules'',
      ''TIMEZONE=US/Eastern'',
      '''',
      ''# Data directory for portfolio and trade logs'',
      ''DATA_DIR=data'']"

definition env_template :: string where
  "env_template = unlines env_template_lines"

definition create_env_file :: "unit proc" where
  "create_env_file =
     then_do (print (nl # key_sign @ '' API KEY SETUP''))
    (then_do (print (rule_line 40))
    (bind (input ''Enter your OpenAI API key (sk-...): '') (\<lambda>answer1.
     let openai_key = strip answer1 in
     then_do (if \<not> startswith openai_key ''sk-''
              then print (warning_sign @ ''  Warning: OpenAI key should start with ''
                          @ [apostrophe] @ ''sk-'' @ [apostrophe])
              else return ())
    (bind (input ''Enter your Anthropic API key (optional, sk-ant-...): '') (\<lambda>answer2.
     let anthropic_key = strip answer2 in
     bind (input ''Enter your Groq API key (optional, gsk-...): '') (\<lambda>answer3.
     let groq_key = strip answer3 in
     bind (input ''Enter your Alpaca API key: '') (\<lambda>answer4.
     let alpaca_key = strip answer4 in
     bind (input ''Enter your Alpaca Secret key: '') (\<lambda>answer5.
     let alpaca_secret = strip answer5 in
     then_do (print (nl # money_bag @ '' TRADING CONFIGURATION''))
    (then_do (print (rule_line 40))
    (bind (input ''Starting capital (default: 1000): '') (\<lambda>answer6.
     let starting_cash = or_default (strip answer6) ''1000'' in
     then_do (print (nl # e_mail @ '' NOTIFICATIONS (Optional)''))
    (then_do (print (rule_line 40))
    (bind (input ''Slack webhook URL (optional): '') (\<lambda>answer7.
     let slack_webhook = or_default (strip answer7) '''' in
     bind (input ''Email for notifications (optional): '') (\<lambda>answer8.
     let email_from = or_default (strip answer8) '''' in
     bind (input ''Email to receive reports (optional): '') (\<lambda>answer9.
     let email_to = or_default (strip answer9) '''' in
     bind (input ''Email app password (optional): '') (\<lambda>answer10.
     let email_password = or_default (strip answer10) '''' in
     bind (of_result (format_str
             [''openai_key'' \<mapsto> openai_key,
              ''anthropic_key'' \<mapsto> anthropic_key,
              ''groq_key'' \<mapsto> groq_key,
              ''alpaca_key'' \<mapsto> alpaca_key,
              ''alpaca_secret'' \<mapsto> alpaca_secret,
              ''starting_cash'' \<mapsto> starting_cash,
              ''slack_webhook'' \<mapsto> slack_webhook,
              ''email_from'' \<mapsto> email_from,
              ''email_to'' \<mapsto> email_to,
              ''email_password'' \<mapsto> email_password]
             env_template)) (\<lambda>env_content.
     then_do (write_file ''.env'' env_content)
             (print (check_mark @ '' .env file created successfully''))))))))))))))))))))"

definition pip_command :: "env \<Rightarrow> string list" where
  "pip_command e = [sys_executable e, ''-m'', ''pip'', ''install'', ''-r'', ''requirements.txt'']"

definition install_dependencies :: "env \<Rightarrow> unit proc" where
  "install_dependencies e = block
     [print (nl # package @ '' INSTALLING DEPENDENCIES''),
      print (rule_line 40),
      try_except
        (block
           [discard (subprocess_run e (pip_command e) True None),
            print (check_mark @ '' Dependencies installed successfully'')])
        is_CalledProcessError
        (\<lambda>ex. block
           [print (cross_mark @ '' Error installing dependencies: '' @ exn_text e ex),
            print (''Error output: '' @ stderr_of ex),
            raise (SystemExit 1)])]"

definition test_command :: "env \<Rightarrow> string list" where
  "test_command e = [sys_executable e, ''tests/test_ai_only.py'']"

definition run_tests :: "env \<Rightarrow> unit proc" where
  "run_tests e = block
     [print (nl # test_tube @ '' RUNNING TESTS''),
      print (rule_line 40),
      try_except
        (bind (subprocess_run e (test_command e) False (Some 60)) (\<lambda>result.
           if returncode result = 0
           then print (check_mark @ '' AI connection test passed'')
           else block
             [print (warning_sign @ ''  AI test failed - check your API keys''),
              print (''Error: '' @ captured_err result)]))
        is_Exception
        (\<lambda>ex. print (warning_sign @ ''  Test failed: '' @ exn_text e ex))]"

text \<open>The loop of \<open>create_directories\<close>, with the list it runs over as its argument.\<close>

definition make_directories :: "string list \<Rightarrow> unit proc" where
  "make_directories directories =
     for_each (\<lambda>directory. block
        [mkdir_exist_ok directory,
         print (check_mark @ '' Created '' @ directory @ ''/'')]) directories"

definition create_directories :: "unit proc" where
  "create_directories = block
     [print (nl # folder @ '' CREATING DIRECTORIES''),
      print (rule_line 40),
      make_directories [''data'', ''logs'', ''reports'']]"

definition deploy_railway :: "unit proc" where
  "deploy_railway = block
     [print (nl # locomotive @ '' RAILWAY DEPLOYMENT''),
      print (rule_line 40),
      print ''1. Install Railway CLI: npm install -g @railway/cli'',
      print ''2. Login: railway login'',
      print ''3. Deploy: railway up'',
      print (nl # ''Or use the web interface:''),
      print ''1. Go to https://railway.app'',
      print ''2. Connect your GitHub repository'',
      print ''3. Add environment variables from .env file'',
      print ''4. Deploy!'']"

definition deploy_render :: "unit proc" where
  "deploy_render = block
     [print (nl # palette @ '' RENDER DEPLOYMENT''),
      print (rule_line 40),
      print ''1. Go to https://render.com'',
      print ''2. Connect your GitHub repository'',
      print ''3. Create a new Web Service'',
      print ''4. Add environment variables from .env file'',
      print ''5. Set build command: pip install -r requirements.txt'',
      print ''6. Set start command: python -m auto_trader.automated_trader'']"

definition docker_probe :: "string list" where
  "docker_probe = [''docker'', ''--version'']"

definition docker_build :: "string list" where
  "docker_build = [''docker'', ''build'', ''-t'', ''microcap-quant'', ''.'']"

definition docker_run :: "env \<Rightarrow> string list" where
  "docker_run e =
     [''docker'', ''run'', ''-d'', ''--name'', ''microcap-quant-bot'',
      ''--env-file'', ''.env'',
      ''-v'', cwd e @ ''/data:/app/data'',
      ''microcap-quant'']"

definition deploy_docker :: "env \<Rightarrow> unit proc" where
  "deploy_docker e = block
     [print (nl # whale @ '' DOCKER DEPLOYMENT''),
      print (rule_line 40),
      try_except
        (block
           [discard (subprocess_run e docker_probe True None),
            print (check_mark @ '' Docker detected''),
            discard (subprocess_run e docker_build True None),
            print (check_mark @ '' Docker image built''),
            discard (subprocess_run e (docker_run e) True None),
            print (check_mark @ '' Docker container started'')])
        is_CalledProcessError
        (\<lambda>ex. block
           [print (cross_mark @ '' Docker not available or failed''),
            print ''Install Docker from https://docker.com''])]"

definition service_template :: string where
  "service_template = unlines [
      ''[Unit]'',
      ''Description=Microcap Quant Trading Bot'',
      ''After=network.target'',
      '''',
      ''[Service]'',
      ''Type=simple'',
      ''User={user}'',
      ''WorkingDirectory={cwd}'',
      ''Environment=PATH={cwd}/venv/bin'',
      ''ExecStart={cwd}/venv/bin/python -m auto_trader.automated_trader'',
      ''Restart=always'',
      ''RestartSec=10'',
      '''',
      ''[Install]'',
      ''WantedBy=multi-user.target'']"

definition deploy_local :: "env \<Rightarrow> unit proc" where
  "deploy_local e = block
     [print (nl # computer @ '' LOCAL DEPLOYMENT''),
      print (rule_line 40),
      bind (of_result (format_str
              [''user'' \<mapsto> str_opt (user e), ''cwd'' \<mapsto> cwd e]
              service_template)) (\<lambda>service_content.
        write_file ''microcap-quant.service'' service_content),
      print (check_mark @ '' Systemd service file created: microcap-quant.service''),
      print (nl # ''To start the service:''),
      print ''sudo cp microcap-quant.service /etc/systemd/system/'',
      print ''sudo systemctl enable microcap-quant'',
      print ''sudo systemctl start microcap-quant'']"

definition show_deployment_options :: "env \<Rightarrow> unit proc" where
  "show_deployment_options e =
     then_do (print (nl # rocket @ '' DEPLOYMENT OPTIONS''))
    (then_do (print (rule_line 40))
    (then_do (print ''1. Railway (Recommended - Zero maintenance)'')
    (then_do (print ''2. Render (Alternative cloud platform)'')
    (then_do (print ''3. Local Docker'')
    (then_do (print ''4. Local Python'')
    (bind (input (nl # ''Select deployment option (1-4): '')) (\<lambda>answer.
     let choice = strip answer in
     if choice = ''1'' then deploy_railway
     else if choice = ''2'' then deploy_render
     else if choice = ''3'' then deploy_docker e
     else if choice = ''4'' then deploy_local e
     else print ''Invalid choice. Exiting.'')))))))"

text \<open>The closing messages of \<open>main\<close>.\<close>

definition completion_report :: "unit proc" where
  "completion_report = block
     [print (nl # party @ '' DEPLOYMENT COMPLETE!''),
      print (rule_line 40),
      print ''Your Microcap Quant bot is ready to trade!'',
      print (nl # bar_chart @ '' Monitor your bot:''),
      print ''- Check logs in logs/ directory'',
      print ''- View portfolio in data/ directory'',
      print ''- Review performance reports'',
      print (nl # warning_sign @ ''  IMPORTANT:''),
      print ''- Bot starts in PAPER TRADING mode for safety'',
      print ''- Set PAPER_TRADING=false in .env for live trading'',
      print ''- Monitor first few trades closely'',
      print ''- All trades are logged for review'']"

definition main :: "env \<Rightarrow> unit proc" where
  "main e = block
     [print_banner,
      check_python_version e,
      create_env_file,
      install_dependencies e,
      create_directories,
      run_tests e,
      show_deployment_options e,
      completion_report]"

text \<open>
  The exit status of the process that runs \<open>main()\<close>: zero when \<open>main\<close> returns, the
  argument of \<open>sys.exit\<close>, and one for any other exception that nothing caught.
\<close>

definition exit_status :: "exn + unit \<Rightarrow> int" where
  "exit_status r = (case r of Inr u \<Rightarrow> 0 | Inl (SystemExit n) \<Rightarrow> n | Inl other \<Rightarrow> 1)"

subsection \<open>Reading the configuration document\<close>

text \<open>
  The document is a text of lines of the form \<open>KEY=value\<close>, each ended by a line
  feed; a line that starts with \<open>#\<close> and an empty line carry no entry. The key of an
  entry is what stands before the first \<open>=\<close>. \<open>document_entries\<close> lists the entries of
  a document in their order, \<open>env_value\<close> looks up what the file \<open>.env\<close> gives a key.
\<close>

fun split_lines :: "string \<Rightarrow> string list" where
  "split_lines [] = []"
| "split_lines (c # cs) =
     (if c = nl then [] # split_lines cs
      else (case split_lines cs of [] \<Rightarrow> [[c]] | l # ls \<Rightarrow> (c # l) # ls))"

definition is_entry :: "string \<Rightarrow> bool" where
  "is_entry l = (case l of [] \<Rightarrow> False | c # cs \<Rightarrow> c \<noteq> CHR ''#'')"

definition entry_of :: "string \<Rightarrow> string \<times> string" where
  "entry_of l =
     (takeWhile (\<lambda>c. c \<noteq> CHR ''='') l, drop 1 (dropWhile (\<lambda>c. c \<noteq> CHR ''='') l))"

definition document_entries :: "string \<Rightarrow> (string \<times> string) list" where
  "document_entries doc = map entry_of (filter is_entry (split_lines doc))"

definition document_keys :: "string \<Rightarrow> string list" where
  "document_keys doc = map fst (document_entries doc)"

definition env_document :: "state \<Rightarrow> string option" where
  "env_document s = (case fs s ''.env'' of Some (File doc) \<Rightarrow> Some doc | _ \<Rightarrow> None)"

definition env_value :: "state \<Rightarrow> string \<Rightarrow> string option" where
  "env_value s k =
     (case env_document s of None \<Rightarrow> None | Some doc \<Rightarrow> map_of (document_entries doc) k)"

subsection \<open>The operator's answers\<close>

text \<open>
  The answers that successive calls of \<open>input\<close> read from a text: \<open>answer k inp\<close> is
  the line the call number \<open>k\<close> (from zero) returns, and \<open>has_answers n inp\<close> tells
  that \<open>n\<close> calls in a row find something to read.
\<close>

fun answer :: "nat \<Rightarrow> string \<Rightarrow> string" where
  "answer 0 inp = read_line inp"
| "answer (Suc k) inp = answer k (after_line inp)"

fun skip_answers :: "nat \<Rightarrow> string \<Rightarrow> string" where
  "skip_answers 0 inp = inp"
| "skip_answers (Suc k) inp = skip_answers k (after_line inp)"

fun has_answers :: "nat \<Rightarrow> string \<Rightarrow> bool" where
  "has_answers 0 inp = True"
| "has_answers (Suc n) inp = (inp \<noteq> [] \<and> has_answers n (after_line inp))"

subsection \<open>The rendered document, line by line\<close>

text \<open>
  A line without braces is left as it is by \<open>format_str\<close>. \<open>render_line\<close> is what
  \<open>format_str\<close> makes of one line of a template, and \<open>render_env\<close> the document made
  of the rendered lines of \<open>env_template\<close> for the ten keyword arguments of
  \<open>create_env_file\<close>.
\<close>

definition plain :: "string \<Rightarrow> bool" where
  "plain xs = list_all (\<lambda>c. c \<noteq> CHR ''{'' \<and> c \<noteq> CHR ''}'') xs"

definition render_line :: "(string \<rightharpoonup> string) \<Rightarrow> string \<Rightarrow> string" where
  "render_line kw l = (case format_str kw l of Inr r \<Rightarrow> r | Inl ex \<Rightarrow> [])"

definition env_kwargs ::
  "string \<Rightarrow> string \<Rightarrow> string \<Rightarrow> string \<Rightarrow> string \<Rightarrow> string \<Rightarrow> string \<Rightarrow> string \<Rightarrow> string \<Rightarrow> string
   \<Rightarrow> (string \<rightharpoonup> string)" where
  "env_kwargs openai_key anthropic_key groq_key alpaca_key alpaca_secret starting_cash
              slack_webhook email_from email_to email_password =
     [''openai_key'' \<mapsto> openai_key,
      ''anthropic_key'' \<mapsto> anthropic_key,
      ''groq_key'' \<mapsto> groq_key,
      ''alpaca_key'' \<mapsto> alpaca_key,
      ''alpaca_secret'' \<mapsto> alpaca_secret,
      ''starting_cash'' \<mapsto> starting_cash,
      ''slack_webhook'' \<mapsto> slack_webhook,
      ''email_from'' \<mapsto> email_from,
      ''email_to'' \<mapsto> email_to,
      ''email_password'' \<mapsto> email_password]"

definition render_env ::
  "string \<Rightarrow> string \<Rightarrow> string \<Rightarrow> string \<Rightarrow> string \<Rightarrow> string \<Rightarrow> string \<Rightarrow> string \<Rightarrow> string \<Rightarrow> string
   \<Rightarrow> string" where
  "render_env a1 a2 a3 a4 a5 a6 a7 a8 a9 a10 =
     unlines (map (render_line (env_kwargs a1 a2 a3 a4 a5 a6 a7 a8 a9 a10)) env_template_lines)"

text \<open>The entries of the document written for ten keyword arguments.\<close>

definition env_entries ::
  "string \<Rightarrow> string \<Rightarrow> string \<Rightarrow> string \<Rightarrow> string \<Rightarrow> string \<Rightarrow> string \<Rightarrow> string \<Rightarrow> string \<Rightarrow> string
   \<Rightarrow> (string \<times> string) list" where
  "env_entries openai_key anthropic_key groq_key alpaca_key alpaca_secret starting_cash
               slack_webhook email_from email_to email_password =
     [(''OPENAI_API_KEY'', openai_key),
      (''ANTHROPIC_API_KEY'', anthropic_key),
      (''GROQ_API_KEY'', groq_key),
      (''ALPACA_API_KEY'', alpaca_key),
      (''ALPACA_SECRET_KEY'', alpaca_secret),
      (''AI_PRIMARY_MODEL'', ''gpt-4o''),
      (''AI_BACKUP_MODEL'', ''gpt-4''),
      (''AI_RESEARCH_MODEL'', ''o3-deep-research-2025-06-26''),
      (''PAPER_TRADING'', ''true''),
      (''STARTING_CASH'', starting_cash),
      (''MAX_POSITION_PCT'', ''0.15''),
      (''STOP_LOSS_PCT'', ''0.15''),
      (''MAX_DAILY_LOSS'', ''0.05''),
      (''SLACK_WEBHOOK'', slack_webhook),
      (''EMAIL_ALERTS'', ''false''),
      (''EMAIL_FROM'', email_from),
      (''EMAIL_TO'', email_to),
      (''EMAIL_PASSWORD'', email_password),
      (''MARKET_CAP_MAX'', ''300000000''),
      (''MIN_VOLUME'', ''50000''),
      (''TIMEZONE'', ''US/Eastern''),
      (''DATA_DIR'', ''data'')]"

text \<open>The keyword arguments \<open>create_env_file\<close> computes from the text on standard input.\<close>

definition collected_entries :: "string \<Rightarrow> (string \<times> string) list" where
  "collected_entries inp =
     env_entries (strip (answer 0 inp)) (strip (answer 1 inp)) (strip (answer 2 inp))
       (strip (answer 3 inp)) (strip (answer 4 inp))
       (or_default (strip (answer 5 inp)) ''1000'')
       (or_default (strip (answer 6 inp)) '''') (or_default (strip (answer 7 inp)) '''')
       (or_default (strip (answer 8 inp)) '''') (or_default (strip (answer 9 inp)) '''')"

definition collected_document :: "string \<Rightarrow> string" where
  "collected_document inp =
     render_env (strip (answer 0 inp)) (strip (answer 1 inp)) (strip (answer 2 inp))
       (strip (answer 3 inp)) (strip (answer 4 inp))
       (or_default (strip (answer 5 inp)) ''1000'')
       (or_default (strip (answer 6 inp)) '''') (or_default (strip (answer 7 inp)) '''')
       (or_default (strip (answer 8 inp)) '''') (or_default (strip (answer 9 inp)) '''')"

text \<open>The chunk that the warning about the OpenAI key writes.\<close>

definition openai_warning :: string where
  "openai_warning = (warning_sign @ ''  Warning: OpenAI key should start with ''
                          @ [apostrophe] @ ''sk-'' @ [apostrophe]) @ [nl]"

text \<open>A regular file under the name of a directory to create.\<close>

definition occupied_by_file :: "state \<Rightarrow> string \<Rightarrow> bool" where
  "occupied_by_file s name = (case fs s name of Some (File c) \<Rightarrow> True | _ \<Rightarrow> False)"

subsection \<open>Sample runs\<close>

text \<open>Concrete environments and states on which the theorems below are exercised.\<close>

definition quiet_child :: completed where
  "quiet_child = \<lparr>returncode = 0, captured_out = [], captured_err = []\<rparr>"

definition sample_env :: env where
  "sample_env =
     \<lparr>version_major = 3, version_minor = 11, sys_version = ''3.11.4 (main)'',
      sys_executable = ''/usr/bin/python3'', cwd = ''/home/bot'', user = Some ''bot'',
      spawn = (\<lambda>argv. Ran quiet_child 1),
      exn_text = (\<lambda>ex. ''command failed'')\<rparr>"

definition old_python :: env where
  "old_python = sample_env\<lparr>version_minor := 8\<rparr>"

definition broken_pip :: env where
  "broken_pip = sample_env
     \<lparr>spawn := (\<lambda>argv. Ran \<lparr>returncode = 1, captured_out = [],
                               captured_err = ''No matching distribution found''\<rparr> 2)\<rparr>"

definition no_docker :: env where
  "no_docker = sample_env
     \<lparr>spawn := (\<lambda>argv. if take 1 argv = [''docker''] then NoSuchProgram
                        else Ran quiet_child 1)\<rparr>"

definition typed :: "string list \<Rightarrow> state" where
  "typed answers = \<lparr>stdin = unlines answers, stdout = [], fs = Map.empty, calls = []\<rparr>"


definition sample_answers :: "string list" where
  "sample_answers =
     [''sk-test'', '''', '''', ''AK123'', ''secret'', '''', '''', '''', '''', '''']"

definition blank_answers :: "string list" where
  "blank_answers = ['''', '''', '''', '''', '''', '''', '''', '''', '''', '''']"


section \<open>Sequencing\<close>

text \<open>How a sequence of statements runs from a given state.\<close>

lemma then_do_print [simp]:
  "then_do (print x) k s = k (s\<lparr>stdout := stdout s @ [x @ [nl]]\<rparr>)"
  by (simp add: then_do_def bind_def print_def)

lemma then_do_return [simp]: "then_do (return u) k s = k s"
  by (simp add: then_do_def bind_def return_def)

lemma then_do_raise [simp]: "then_do (raise ex) k s = (Inl ex, s)"
  by (simp add: then_do_def bind_def raise_def)

lemma then_do_assoc [simp]: "then_do (then_do a b) c = then_do a (then_do b c)"
  by (rule ext) (simp add: then_do_def bind_def split: prod.splits sum.splits)


lemma then_do_block_Nil [simp]: "then_do (block []) k = k"
  by (rule ext) simp

lemma then_do_if [simp]:
  "then_do (if c then a else b) k = (if c then then_do a k else then_do b k)"
  by simp

lemma then_do_return_unit [simp]: "then_do m (return ()) = m"
  by (rule ext) (simp add: then_do_def bind_def return_def split: prod.splits sum.splits)

lemma then_do_run:
  "then_do (discard (subprocess_run e argv check timeout)) k s =
     (case subprocess_run e argv check timeout s of
        (Inl ex, s1) \<Rightarrow> (Inl ex, s1)
      | (Inr r, s1) \<Rightarrow> k s1)"
  by (simp add: then_do_def discard_def bind_def return_def split: prod.splits sum.splits)

lemma print_banner_state:
  "then_do print_banner k s = k (s\<lparr>stdout := stdout s @
      [rule_line 60 @ [nl], (rocket @ '' MICROCAP QUANT - DEPLOYMENT SCRIPT'') @ [nl],
       rule_line 60 @ [nl], ''AI-Powered Microcap Trading Bot'' @ [nl],
       ''Version: 0.2.0'' @ [nl], rule_line 60 @ [nl]]\<rparr>)"
  by (simp add: print_banner_def)

section \<open>Formatting the template\<close>

text \<open>
  \<open>format_str\<close> works through a template from left to right, so a template that is
  made of lines can be formatted line by line. The lines of \<open>env_template\<close> without a
  field are left as they are, and the ten lines with a field end in the keyword argument.
\<close>

lemma takeWhile_append_stop:
  "\<exists>x\<in>set xs. \<not> P x \<Longrightarrow> takeWhile P (xs @ ys) = takeWhile P xs"
  by (induction xs) auto

lemma dropWhile_append_stop:
  "\<exists>x\<in>set xs. \<not> P x \<Longrightarrow> dropWhile P (xs @ ys) = dropWhile P xs @ ys"
  by (induction xs) auto

lemma dropWhile_nonempty_stop: "dropWhile P xs \<noteq> [] \<Longrightarrow> \<exists>x\<in>set xs. \<not> P x"
  by (induction xs) (auto split: if_splits)

lemma format_str_append:
  "format_str kw xs = Inr r \<Longrightarrow>
   format_str kw (xs @ ys) = map_sum id (append r) (format_str kw ys)"
proof (induction kw xs arbitrary: r rule: format_str.induct)
  case (1 kw)
  then show ?case by (cases "format_str kw ys") auto
next
  case (2 kw c cs)
  show ?case
  proof (cases "c = CHR ''{''")
    case open_brace: True
    show ?thesis
    proof (cases cs)
      case Nil
      with 2 open_brace show ?thesis by simp
    next
      case (Cons d r')
      show ?thesis
      proof (cases "d = CHR ''{''")
        case True
        with 2 open_brace Cons show ?thesis
          by (cases "format_str kw r'"; cases "format_str kw ys") auto
      next
        case False
        let ?P = "\<lambda>x. x \<noteq> CHR ''}''"
        from 2(5) open_brace Cons False
        have rest: "dropWhile ?P cs \<noteq> []"
          by (auto simp: Let_def split: if_splits)
        then have stop: "\<exists>x\<in>set cs. \<not> ?P x" by (rule dropWhile_nonempty_stop)
        from 2(5) open_brace Cons False rest
        obtain v where v: "kw (takeWhile ?P cs) = Some v"
          by (auto simp: Let_def split: if_splits option.splits)
        from 2(5) open_brace Cons False rest v
        obtain r2 where r2: "format_str kw (tl (dropWhile ?P cs)) = Inr r2" "r = v @ r2"
          by (cases "format_str kw (tl (dropWhile ?P cs))") (auto simp: Let_def)
        have ih: "format_str kw (tl (dropWhile ?P cs) @ ys) = map_sum id (append r2) (format_str kw ys)"
          using 2(2)[OF open_brace Cons False refl refl rest v r2(1)] .
        have tk: "takeWhile ?P (cs @ ys) = takeWhile ?P cs"
          using stop by (rule takeWhile_append_stop)
        have dr: "dropWhile ?P (cs @ ys) = dropWhile ?P cs @ ys"
          using stop by (rule dropWhile_append_stop)
        have cs_app: "cs @ ys = d # (r' @ ys)" using Cons by simp
        have "format_str kw ((c # cs) @ ys) = map_sum id (append v) (format_str kw (tl (dropWhile ?P (cs @ ys))))"
          using open_brace False rest v tk dr
          apply (simp only: append_Cons format_str.simps)
          apply (subst cs_app)
          apply (simp add: Let_def del: format_str.simps)
          apply blast
          done
        also have "tl (dropWhile ?P (cs @ ys)) = tl (dropWhile ?P cs) @ ys"
          using rest dr by simp
        finally show ?thesis using ih r2
          by (cases "format_str kw ys") (auto simp del: format_str.simps)
      qed
    qed
  next
    case not_open: False
    show ?thesis
    proof (cases "c = CHR ''}''")
      case True
      with 2 not_open show ?thesis
        apply (cases cs)
         apply simp
        subgoal for d r'
          by (cases "d = CHR ''}''"; cases "format_str kw r'"; cases "format_str kw ys") auto
        done
    next
      case False
      with 2 not_open show ?thesis
        by (cases "format_str kw cs"; cases "format_str kw ys") auto
    qed
  qed
qed

lemma format_str_unlines:
  "list_all2 (\<lambda>l r. format_str kw l = Inr r) ls rs \<Longrightarrow>
   format_str kw (unlines ls) = Inr (unlines rs)"
proof (induction ls rs rule: list_all2_induct)
  case Nil
  then show ?case by (simp add: unlines_def)
next
  case (Cons l ls r rs)
  have nl_plain: "format_str kw [nl] = Inr [nl]" by (simp add: nl_def)
  have "format_str kw (unlines (l # ls)) = format_str kw (l @ ([nl] @ unlines ls))"
    by (simp add: unlines_def)
  also have "\<dots> = map_sum id (append r) (format_str kw ([nl] @ unlines ls))"
    using Cons.hyps(1) by (rule format_str_append)
  also have "format_str kw ([nl] @ unlines ls) = map_sum id (append [nl]) (format_str kw (unlines ls))"
    using nl_plain by (rule format_str_append)
  finally show ?case using Cons.IH by (simp add: unlines_def)
qed


lemma format_str_plain: "plain xs \<Longrightarrow> format_str kw xs = Inr xs"
  by (induction xs) (auto simp: plain_def)

lemma plain_takeWhile: "plain name \<Longrightarrow> takeWhile (\<lambda>x. x \<noteq> CHR ''}'') (name @ ''}'') = name"
  by (induction name) (auto simp: plain_def)

lemma plain_dropWhile: "plain name \<Longrightarrow> dropWhile (\<lambda>x. x \<noteq> CHR ''}'') (name @ ''}'') = ''}''"
  by (induction name) (auto simp: plain_def)

lemma format_str_field:
  assumes "plain pre" and "plain name" and "name \<noteq> []" and "kw name = Some v"
  shows "format_str kw (pre @ CHR ''{'' # name @ ''}'') = Inr (pre @ v)"
proof -
  obtain d r where name: "name = d # r" using assms(3) by (cases name) auto
  have d: "d \<noteq> CHR ''{''" using assms(2) name by (simp add: plain_def)
  have "format_str kw (CHR ''{'' # name @ ''}'') = Inr v"
    using d assms(4) plain_takeWhile[OF assms(2)] plain_dropWhile[OF assms(2)]
    by (simp add: name Let_def)
  moreover have "format_str kw (pre @ CHR ''{'' # name @ ''}'')
      = map_sum id (append pre) (format_str kw (CHR ''{'' # name @ ''}''))"
    using format_str_plain[OF assms(1)] by (rule format_str_append)
  ultimately show ?thesis by simp
qed

lemma render_line_plain: "plain l \<Longrightarrow> render_line kw l = l"
  by (simp add: render_line_def format_str_plain)

lemma render_line_ok_plain: "plain l \<Longrightarrow> format_str kw l = Inr (render_line kw l)"
  by (simp add: render_line_def format_str_plain)

lemma render_line_field:
  assumes "plain pre" and "plain name" and "name \<noteq> []" and "kw name = Some v"
  shows "render_line kw (pre @ CHR ''{'' # name @ ''}'') = pre @ v"
  using assms by (simp add: render_line_def format_str_field)

lemma render_line_fields:
    "render_line (env_kwargs a1 a2 a3 a4 a5 a6 a7 a8 a9 a10) ''OPENAI_API_KEY={openai_key}'' = ''OPENAI_API_KEY='' @ a1"
    "render_line (env_kwargs a1 a2 a3 a4 a5 a6 a7 a8 a9 a10) ''ANTHROPIC_API_KEY={anthropic_key}'' = ''ANTHROPIC_API_KEY='' @ a2"
    "render_line (env_kwargs a1 a2 a3 a4 a5 a6 a7 a8 a9 a10) ''GROQ_API_KEY={groq_key}'' = ''GROQ_API_KEY='' @ a3"
    "render_line (env_kwargs a1 a2 a3 a4 a5 a6 a7 a8 a9 a10) ''ALPACA_API_KEY={alpaca_key}'' = ''ALPACA_API_KEY='' @ a4"
    "render_line (env_kwargs a1 a2 a3 a4 a5 a6 a7 a8 a9 a10) ''ALPACA_SECRET_KEY={alpaca_secret}'' = ''ALPACA_SECRET_KEY='' @ a5"
    "render_line (env_kwargs a1 a2 a3 a4 a5 a6 a7 a8 a9 a10) ''STARTING_CASH={starting_cash}'' = ''STARTING_CASH='' @ a6"
    "render_line (env_kwargs a1 a2 a3 a4 a5 a6 a7 a8 a9 a10) ''SLACK_WEBHOOK={slack_webhook}'' = ''SLACK_WEBHOOK='' @ a7"
    "render_line (env_kwargs a1 a2 a3 a4 a5 a6 a7 a8 a9 a10) ''EMAIL_FROM={email_from}'' = ''EMAIL_FROM='' @ a8"
    "render_line (env_kwargs a1 a2 a3 a4 a5 a6 a7 a8 a9 a10) ''EMAIL_TO={email_to}'' = ''EMAIL_TO='' @ a9"
    "render_line (env_kwargs a1 a2 a3 a4 a5 a6 a7 a8 a9 a10) ''EMAIL_PASSWORD={email_password}'' = ''EMAIL_PASSWORD='' @ a10"
  by (simp_all add: render_line_def env_kwargs_def)

lemma split_lines_line:
  "nl \<notin> set l \<Longrightarrow> split_lines (l @ nl # rest) = l # split_lines rest"
  by (induction l) auto

lemma split_lines_unlines:
  "list_all (\<lambda>l. nl \<notin> set l) ls \<Longrightarrow> split_lines (unlines ls) = ls"
  by (induction ls) (simp_all add: unlines_def split_lines_line)

lemma env_template_format:
  "list_all2 (\<lambda>l r. format_str (env_kwargs a1 a2 a3 a4 a5 a6 a7 a8 a9 a10) l = Inr r)
     env_template_lines
     (map (render_line (env_kwargs a1 a2 a3 a4 a5 a6 a7 a8 a9 a10)) env_template_lines)"
proof -
  have "list_all (\<lambda>l. \<exists>r. format_str (env_kwargs a1 a2 a3 a4 a5 a6 a7 a8 a9 a10) l = Inr r)
          env_template_lines"
    by (simp add: env_template_lines_def format_str_plain plain_def del: format_str.simps)
       (simp add: env_kwargs_def)
  then show ?thesis
    by (auto simp: list_all2_conv_all_nth list_all_length render_line_def)
qed

lemma format_env_template:
  "format_str (env_kwargs a1 a2 a3 a4 a5 a6 a7 a8 a9 a10) env_template
     = Inr (render_env a1 a2 a3 a4 a5 a6 a7 a8 a9 a10)"
  unfolding env_template_def render_env_def
  using env_template_format by (rule format_str_unlines)

lemma render_env_no_newline:
  assumes "nl \<notin> set a1" "nl \<notin> set a2" "nl \<notin> set a3" "nl \<notin> set a4" "nl \<notin> set a5"
    "nl \<notin> set a6" "nl \<notin> set a7" "nl \<notin> set a8" "nl \<notin> set a9" "nl \<notin> set a10"
  shows "list_all (\<lambda>l. nl \<notin> set l)
     (map (render_line (env_kwargs a1 a2 a3 a4 a5 a6 a7 a8 a9 a10)) env_template_lines)"
  using assms
  by (simp add: env_template_lines_def render_line_fields render_line_plain plain_def nl_def)

lemma render_env_entries:
  "map entry_of (filter is_entry
     (map (render_line (env_kwargs a1 a2 a3 a4 a5 a6 a7 a8 a9 a10)) env_template_lines))
   = env_entries a1 a2 a3 a4 a5 a6 a7 a8 a9 a10"
  by (simp add: env_template_lines_def render_line_fields render_line_plain plain_def
        is_entry_def entry_of_def env_entries_def)

lemma document_entries_render_env:
  assumes "nl \<notin> set a1" "nl \<notin> set a2" "nl \<notin> set a3" "nl \<notin> set a4" "nl \<notin> set a5"
    "nl \<notin> set a6" "nl \<notin> set a7" "nl \<notin> set a8" "nl \<notin> set a9" "nl \<notin> set a10"
  shows "document_entries (render_env a1 a2 a3 a4 a5 a6 a7 a8 a9 a10)
     = env_entries a1 a2 a3 a4 a5 a6 a7 a8 a9 a10"
  unfolding document_entries_def render_env_def
  by (simp only: split_lines_unlines[OF render_env_no_newline[OF assms]] render_env_entries)

lemma document_entries_env_template:
  "document_keys env_template = map fst (env_entries a1 a2 a3 a4 a5 a6 a7 a8 a9 a10)"
proof -
  have "list_all (\<lambda>l. nl \<notin> set l) env_template_lines"
    by (simp add: env_template_lines_def nl_def)
  then have "split_lines env_template = env_template_lines"
    unfolding env_template_def by (rule split_lines_unlines)
  then show ?thesis
    by (simp add: document_keys_def document_entries_def env_template_lines_def
          is_entry_def entry_of_def env_entries_def)
qed


section \<open>Collecting the configuration\<close>

text \<open>
  \<open>create_env_file\<close> returns exactly when standard input holds ten answers and
  \<open>.env\<close> is not a directory. It then has written the document rendered from the
  answers; otherwise it raises \<open>EOFError\<close> or \<open>IsADirectoryError\<close>. In every case it
  starts no child process and leaves every other name of the directory as it was.
\<close>

lemma has_answers_numeral:
  "has_answers (numeral k) inp = (inp \<noteq> [] \<and> has_answers (pred_numeral k) (after_line inp))"
  by (simp add: numeral_eq_Suc)

lemma answer_numeral: "answer (numeral k) inp = answer (pred_numeral k) (after_line inp)"
  by (simp add: numeral_eq_Suc)

lemma skip_answers_numeral:
  "skip_answers (numeral k) inp = skip_answers (pred_numeral k) (after_line inp)"
  by (simp add: numeral_eq_Suc)

lemma bind_input:
  "bind (input p) f s =
     (if stdin s = [] then (Inl EOFError, s\<lparr>stdout := stdout s @ [p]\<rparr>)
      else f (read_line (stdin s))
             (s\<lparr>stdout := stdout s @ [p], stdin := after_line (stdin s)\<rparr>))"
  by (simp add: bind_def input_def Let_def)

lemma bind_of_result:
  "bind (of_result r) f s = (case r of Inl ex \<Rightarrow> (Inl ex, s) | Inr x \<Rightarrow> f x s)"
  by (simp add: bind_def of_result_def split: sum.splits)

lemma then_do_write_file:
  "then_do (write_file name content) k s =
     (if fs s name = Some Dir then (Inl (IsADirectoryError name), s)
      else k (s\<lparr>fs := (fs s)(name \<mapsto> File content)\<rparr>))"
  by (simp add: then_do_def bind_def write_file_def split: option.splits node.splits)

lemma format_env_inline:
  "format_str
     [''openai_key'' \<mapsto> a1, ''anthropic_key'' \<mapsto> a2, ''groq_key'' \<mapsto> a3,
      ''alpaca_key'' \<mapsto> a4, ''alpaca_secret'' \<mapsto> a5, ''starting_cash'' \<mapsto> a6,
      ''slack_webhook'' \<mapsto> a7, ''email_from'' \<mapsto> a8, ''email_to'' \<mapsto> a9,
      ''email_password'' \<mapsto> a10] env_template
   = Inr (render_env a1 a2 a3 a4 a5 a6 a7 a8 a9 a10)"
  using format_env_template[of a1 a2 a3 a4 a5 a6 a7 a8 a9 a10] by (simp only: env_kwargs_def)

lemma create_env_file_collected:
  assumes "has_answers 10 (stdin s)" and "fs s ''.env'' \<noteq> Some Dir"
  shows "create_env_file s =
    (Inr (),
     s\<lparr>stdout := stdout s @
         [(nl # key_sign @ '' API KEY SETUP'') @ [nl],
          rule_line 40 @ [nl],
          ''Enter your OpenAI API key (sk-...): ''] @
         (if startswith (strip (answer 0 (stdin s))) ''sk-'' then [] else [openai_warning]) @
         [''Enter your Anthropic API key (optional, sk-ant-...): '',
          ''Enter your Groq API key (optional, gsk-...): '',
          ''Enter your Alpaca API key: '',
          ''Enter your Alpaca Secret key: '',
          (nl # money_bag @ '' TRADING CONFIGURATION'') @ [nl],
          rule_line 40 @ [nl],
          ''Starting capital (default: 1000): '',
          (nl # e_mail @ '' NOTIFICATIONS (Optional)'') @ [nl],
          rule_line 40 @ [nl],
          ''Slack webhook URL (optional): '',
          ''Email for notifications (optional): '',
          ''Email to receive reports (optional): '',
          ''Email app password (optional): '',
          (check_mark @ '' .env file created successfully'') @ [nl]],
       stdin := skip_answers 10 (stdin s),
       fs := (fs s)(''.env'' \<mapsto> File (collected_document (stdin s)))\<rparr>)"
  using assms
  by (simp add: create_env_file_def bind_input bind_of_result then_do_write_file
        format_env_inline Let_def has_answers_numeral answer_numeral skip_answers_numeral collected_document_def openai_warning_def
        print_def)


lemma then_do_if_print:
  "then_do (if c then print x else return ()) k s =
     k (s\<lparr>stdout := stdout s @ (if c then [x @ [nl]] else [])\<rparr>)"
  by simp

lemma create_env_file_returns:
  "fst (create_env_file s) = Inr () \<longleftrightarrow> has_answers 10 (stdin s) \<and> fs s ''.env'' \<noteq> Some Dir"
  by (simp add: create_env_file_def bind_input bind_of_result then_do_write_file
        format_env_inline Let_def has_answers_numeral print_def then_do_if_print
        del: then_do_if)
lemma create_env_file_frame:
  "calls (snd (create_env_file s)) = calls s
   \<and> (\<forall>x. x \<noteq> ''.env'' \<longrightarrow> fs (snd (create_env_file s)) x = fs s x)
   \<and> (fs (snd (create_env_file s)) ''.env'' = Some Dir \<longleftrightarrow> fs s ''.env'' = Some Dir)"
  by (simp add: create_env_file_def bind_input bind_of_result then_do_write_file
        format_env_inline Let_def print_def then_do_if_print del: then_do_if)

lemma create_env_file_raises:
  "fst (create_env_file s) = Inl ex \<Longrightarrow> ex = EOFError \<or> ex = IsADirectoryError ''.env''"
  by (simp add: create_env_file_def bind_input bind_of_result then_do_write_file
        format_env_inline Let_def print_def then_do_if_print del: then_do_if
        split: if_splits)

lemma read_line_no_newline: "nl \<notin> set (read_line inp)"
  unfolding read_line_def by (induction inp) auto

lemma answer_no_newline: "nl \<notin> set (answer k inp)"
  by (induction k inp rule: answer.induct) (simp_all add: read_line_no_newline)

lemma set_strip: "set (strip x) \<subseteq> set x"
proof -
  have "set (strip x) = set (dropWhile isspace (rev (dropWhile isspace x)))"
    by (simp add: strip_def)
  also have "\<dots> \<subseteq> set (rev (dropWhile isspace x))"
    by (auto dest: set_dropWhileD)
  also have "\<dots> \<subseteq> set x"
    by (auto dest: set_dropWhileD)
  finally show ?thesis .
qed

lemma strip_no_newline: "nl \<notin> set x \<Longrightarrow> nl \<notin> set (strip x)"
  using set_strip by blast

lemma or_default_no_newline:
  "nl \<notin> set x \<Longrightarrow> nl \<notin> set (or_default x ''1000'')"
  "nl \<notin> set x \<Longrightarrow> nl \<notin> set (or_default x [])"
  by (simp_all add: or_default_def nl_def)

lemma collected_document_entries:
  "document_entries (collected_document inp) = collected_entries inp"
  unfolding collected_document_def collected_entries_def
  by (rule document_entries_render_env)
     (intro strip_no_newline or_default_no_newline answer_no_newline)+

lemma env_document_collected:
  assumes "fst (create_env_file s) = Inr ()"
  shows "env_document (snd (create_env_file s)) = Some (collected_document (stdin s))"
proof -
  from assms have "has_answers 10 (stdin s)" and "fs s ''.env'' \<noteq> Some Dir"
    by (simp_all add: create_env_file_returns)
  then show ?thesis
    by (simp add: create_env_file_collected env_document_def)
qed

lemma env_value_collected:
  assumes "fst (create_env_file s) = Inr ()"
  shows "env_value (snd (create_env_file s)) k = map_of (collected_entries (stdin s)) k"
  by (simp add: env_value_def env_document_collected[OF assms] collected_document_entries)


section \<open>Answers typed line by line\<close>

text \<open>When standard input is a text of lines, the answers are these lines.\<close>

lemma takeWhile_line: "nl \<notin> set a \<Longrightarrow> takeWhile (\<lambda>c. c \<noteq> nl) (a @ nl # r) = a"
  by (induction a) auto

lemma dropWhile_line: "nl \<notin> set a \<Longrightarrow> dropWhile (\<lambda>c. c \<noteq> nl) (a @ nl # r) = nl # r"
  by (induction a) auto

lemma read_line_unlines: "nl \<notin> set a \<Longrightarrow> read_line (unlines (a # as)) = a"
  by (simp add: read_line_def unlines_def takeWhile_line)

lemma after_line_unlines: "nl \<notin> set a \<Longrightarrow> after_line (unlines (a # as)) = unlines as"
  by (simp add: after_line_def unlines_def dropWhile_line)

lemma unlines_nonempty: "unlines (a # as) \<noteq> []"
  by (simp add: unlines_def)

lemma has_answers_unlines:
  "list_all (\<lambda>a. nl \<notin> set a) as \<Longrightarrow> n \<le> length as \<Longrightarrow> has_answers n (unlines as)"
proof (induction n arbitrary: as)
  case 0
  then show ?case by simp
next
  case (Suc n)
  then obtain a as' where as: "as = a # as'" by (cases as) auto
  with Suc show ?case
    by (simp add: unlines_nonempty after_line_unlines)
qed



lemma typed_returns:
  "list_all (\<lambda>a. nl \<notin> set a) as \<Longrightarrow> 10 \<le> length as \<Longrightarrow>
   fst (create_env_file (typed as)) = Inr ()"
  unfolding create_env_file_returns by (simp add: typed_def has_answers_unlines)


section \<open>The stages of the pipeline\<close>

text \<open>
  What each stage returns and leaves behind, and how \<open>main\<close> runs from one stage to
  the next.
\<close>

lemma then_do_apply:
  "then_do m k s = (case m s of (Inl ex, s1) \<Rightarrow> (Inl ex, s1) | (Inr x, s1) \<Rightarrow> k s1)"
  by (simp add: then_do_def bind_def)

lemma then_do_returned: "fst (m s) = Inr x \<Longrightarrow> then_do m k s = k (snd (m s))"
  by (cases "m s") (simp add: then_do_apply)

lemma then_do_raised: "fst (m s) = Inl ex \<Longrightarrow> then_do m k s = (Inl ex, snd (m s))"
  by (cases "m s") (simp add: then_do_apply)

lemma check_python_version_result:
  "check_python_version e s =
     (if version_below e 3 9
      then (Inl (SystemExit 1),
            s\<lparr>stdout := stdout s @
               [(cross_mark @ '' Error: Python 3.9+ required'') @ [nl],
                (''Current version: '' @ sys_version e) @ [nl]]\<rparr>)
      else (Inr (),
            s\<lparr>stdout := stdout s @
               [(check_mark @ '' Python '' @ str_nat (version_major e) @ ''.''
                 @ str_nat (version_minor e) @ '' detected'') @ [nl]]\<rparr>))"
  by (simp add: check_python_version_def print_def)

lemma install_dependencies_failed:
  assumes "spawn e (pip_command e) = Ran r t" and "returncode r \<noteq> 0"
  shows "install_dependencies e s =
     (Inl (SystemExit 1),
      s\<lparr>stdout := stdout s @
          [(nl # package @ '' INSTALLING DEPENDENCIES'') @ [nl],
           rule_line 40 @ [nl],
           (cross_mark @ '' Error installing dependencies: ''
              @ exn_text e (CalledProcessError (pip_command e) (returncode r)
                              (captured_out r) (captured_err r))) @ [nl],
           (''Error output: '' @ captured_err r) @ [nl]],
        calls := calls s @ [pip_command e]\<rparr>)"
  using assms
  by (simp add: install_dependencies_def try_except_def then_do_run subprocess_run_def raise_def)


lemma main_from_collecting:
  "\<not> version_below e 3 9 \<Longrightarrow>
   main e s = then_do create_env_file
     (then_do (install_dependencies e)
        (block [create_directories, run_tests e, show_deployment_options e, completion_report]))
     (s\<lparr>stdout := stdout s @
        [rule_line 60 @ [nl], (rocket @ '' MICROCAP QUANT - DEPLOYMENT SCRIPT'') @ [nl],
         rule_line 60 @ [nl], ''AI-Powered Microcap Trading Bot'' @ [nl],
         ''Version: 0.2.0'' @ [nl], rule_line 60 @ [nl],
         (check_mark @ '' Python '' @ str_nat (version_major e) @ ''.''
            @ str_nat (version_minor e) @ '' detected'') @ [nl]]\<rparr>)"
  by (simp add: main_def print_banner_state check_python_version_def)

lemma main_old_interpreter:
  "version_below e 3 9 \<Longrightarrow>
   main e s = (Inl (SystemExit 1),
     s\<lparr>stdout := stdout s @
        [rule_line 60 @ [nl], (rocket @ '' MICROCAP QUANT - DEPLOYMENT SCRIPT'') @ [nl],
         rule_line 60 @ [nl], ''AI-Powered Microcap Trading Bot'' @ [nl],
         ''Version: 0.2.0'' @ [nl], rule_line 60 @ [nl],
         (cross_mark @ '' Error: Python 3.9+ required'') @ [nl],
         (''Current version: '' @ sys_version e) @ [nl]]\<rparr>)"
  by (simp add: main_def print_banner_state check_python_version_def)

lemma restrict_outside:
  "(\<forall>x. x \<noteq> k \<longrightarrow> f x = g x) \<Longrightarrow> f |` (- {k}) = g |` (- {k})"
  by (auto simp: restrict_map_def fun_eq_iff)

lemma main_failed_installation:
  assumes "spawn e (pip_command e) = Ran r t" and "returncode r \<noteq> 0"
  shows "exit_status (fst (main e s)) = 1
       \<and> fs (snd (main e s)) |` (- {''.env''}) = fs s |` (- {''.env''})
       \<and> (calls (snd (main e s)) = calls s
          \<or> calls (snd (main e s)) = calls s @ [pip_command e])"
proof (cases "version_below e 3 9")
  case True
  then show ?thesis by (simp add: main_old_interpreter exit_status_def)
next
  case False
  define s1 where "s1 = s\<lparr>stdout := stdout s @
        [rule_line 60 @ [nl], (rocket @ '' MICROCAP QUANT - DEPLOYMENT SCRIPT'') @ [nl],
         rule_line 60 @ [nl], ''AI-Powered Microcap Trading Bot'' @ [nl],
         ''Version: 0.2.0'' @ [nl], rule_line 60 @ [nl],
         (check_mark @ '' Python '' @ str_nat (version_major e) @ ''.''
            @ str_nat (version_minor e) @ '' detected'') @ [nl]]\<rparr>"
  have s1: "fs s1 = fs s" "calls s1 = calls s" by (simp_all add: s1_def)
  have m: "main e s = then_do create_env_file
     (then_do (install_dependencies e)
        (block [create_directories, run_tests e, show_deployment_options e, completion_report])) s1"
    unfolding s1_def using False by (rule main_from_collecting)
  let ?s2 = "snd (create_env_file s1)"
  have frame: "calls ?s2 = calls s" "fs ?s2 |` (- {''.env''}) = fs s |` (- {''.env''})"
    using create_env_file_frame[of s1] s1 by (simp_all add: restrict_outside)
  show ?thesis
  proof (cases "fst (create_env_file s1)")
    case (Inl ex)
    then have "main e s = (Inl ex, ?s2)" unfolding m by (rule then_do_raised)
    moreover have "ex = EOFError \<or> ex = IsADirectoryError ''.env''"
      using Inl by (rule create_env_file_raises)
    ultimately show ?thesis using frame by (auto simp: exit_status_def)
  next
    case (Inr u)
    then have "main e s = then_do (install_dependencies e)
        (block [create_directories, run_tests e, show_deployment_options e, completion_report]) ?s2"
      unfolding m by (rule then_do_returned)
    then show ?thesis using frame
      by (simp add: then_do_apply install_dependencies_failed[OF assms] exit_status_def)
  qed
qed



lemma show_deployment_options_choice:
  assumes "stdin s \<noteq> []"
  shows "show_deployment_options e s =
     (let choice = strip (read_line (stdin s));
          s1 = s\<lparr>stdout := stdout s @
            [(nl # rocket @ '' DEPLOYMENT OPTIONS'') @ [nl],
             rule_line 40 @ [nl],
             ''1. Railway (Recommended - Zero maintenance)'' @ [nl],
             ''2. Render (Alternative cloud platform)'' @ [nl],
             ''3. Local Docker'' @ [nl],
             ''4. Local Python'' @ [nl],
             nl # ''Select deployment option (1-4): ''],
            stdin := after_line (stdin s)\<rparr>
      in if choice = ''1'' then deploy_railway s1
         else if choice = ''2'' then deploy_render s1
         else if choice = ''3'' then deploy_docker e s1
         else if choice = ''4'' then deploy_local e s1
         else print ''Invalid choice. Exiting.'' s1)"
  using assms
  by (simp add: show_deployment_options_def bind_input Let_def)

lemma deploy_docker_no_engine:
  assumes "spawn e docker_probe = NoSuchProgram"
  shows "deploy_docker e s =
     (Inl (FileNotFoundError ''docker''),
      s\<lparr>stdout := stdout s @
          [(nl # whale @ '' DOCKER DEPLOYMENT'') @ [nl], rule_line 40 @ [nl]],
        calls := calls s @ [docker_probe]\<rparr>)"
  using assms
  by (simp add: deploy_docker_def try_except_def then_do_run subprocess_run_def docker_probe_def)

lemma deploy_docker_probe_fails:
  assumes "spawn e docker_probe = Ran r t" and "returncode r \<noteq> 0"
  shows "deploy_docker e s =
     (Inr (),
      s\<lparr>stdout := stdout s @
          [(nl # whale @ '' DOCKER DEPLOYMENT'') @ [nl], rule_line 40 @ [nl],
           (cross_mark @ '' Docker not available or failed'') @ [nl],
           ''Install Docker from https://docker.com'' @ [nl]],
        calls := calls s @ [docker_probe]\<rparr>)"
  using assms
  by (simp add: deploy_docker_def try_except_def then_do_run subprocess_run_def print_def)

lemma then_do_mkdir:
  "then_do (mkdir_exist_ok d) k s =
     (if occupied_by_file s d then (Inl (FileExistsError d), s)
      else if fs s d = Some Dir then k s
      else k (s\<lparr>fs := (fs s)(d \<mapsto> Dir)\<rparr>))"
  by (simp add: then_do_def bind_def mkdir_exist_ok_def occupied_by_file_def
        split: option.splits node.splits)

lemma make_directories_Nil: "make_directories [] s = (Inr (), s)"
  by (simp add: make_directories_def return_def)

lemma make_directories_Cons:
  "make_directories (d # ds) s =
     (if occupied_by_file s d then (Inl (FileExistsError d), s)
      else make_directories ds
        ((if fs s d = Some Dir then s else s\<lparr>fs := (fs s)(d \<mapsto> Dir)\<rparr>)
           \<lparr>stdout := stdout s @ [(check_mark @ '' Created '' @ d @ ''/'') @ [nl]]\<rparr>))"
  by (simp add: make_directories_def then_do_mkdir)

lemma make_directories_result:
  "list_all (\<lambda>d. \<not> occupied_by_file s d) ds \<Longrightarrow>
   \<exists>s1. make_directories ds s = (Inr (), s1)
      \<and> fs s1 = (\<lambda>x. if x \<in> set ds then Some Dir else fs s x)
      \<and> stdin s1 = stdin s \<and> calls s1 = calls s"
proof (induction ds arbitrary: s)
  case Nil
  then show ?case by (simp add: make_directories_Nil)
next
  case (Cons d ds)
  let ?s' = "(if fs s d = Some Dir then s else s\<lparr>fs := (fs s)(d \<mapsto> Dir)\<rparr>)
           \<lparr>stdout := stdout s @ [(check_mark @ '' Created '' @ d @ ''/'') @ [nl]]\<rparr>"
  have fs': "fs ?s' = (fs s)(d \<mapsto> Dir)" by (auto simp: fun_eq_iff)
  have frame: "stdin ?s' = stdin s" "calls ?s' = calls s" by simp_all
  from Cons.prems have free: "\<not> occupied_by_file s d"
    and rest: "list_all (\<lambda>d. \<not> occupied_by_file s d) ds" by simp_all
  from rest have "list_all (\<lambda>x. \<not> occupied_by_file ?s' x) ds"
    by (auto simp: list_all_iff occupied_by_file_def fs' simp del: fun_upd_apply
          split: option.splits node.splits) (auto split: if_splits)
  from Cons.IH[OF this] obtain s1 where
    s1: "make_directories ds ?s' = (Inr (), s1)"
        "fs s1 = (\<lambda>x. if x \<in> set ds then Some Dir else fs ?s' x)"
        "stdin s1 = stdin ?s'" "calls s1 = calls ?s'"
    by blast
  have "make_directories (d # ds) s = (Inr (), s1)"
    using free s1(1) by (simp only: make_directories_Cons if_False)
  moreover have "fs s1 = (\<lambda>x. if x \<in> set (d # ds) then Some Dir else fs s x)"
    unfolding s1(2) fs' by (auto simp: fun_eq_iff)
  ultimately show ?case using s1(3,4) frame by (intro exI[of _ s1]) simp
qed

lemma make_directories_twice:
  assumes "list_all (\<lambda>d. \<not> occupied_by_file s d) ds"
  shows "\<exists>s1 s2. make_directories ds s = (Inr (), s1)
           \<and> make_directories ds s1 = (Inr (), s2)
           \<and> fs s2 = fs s1
           \<and> fs s1 = (\<lambda>x. if x \<in> set ds then Some Dir else fs s x)"
proof -
  from make_directories_result[OF assms] obtain s1 where
    s1: "make_directories ds s = (Inr (), s1)"
        "fs s1 = (\<lambda>x. if x \<in> set ds then Some Dir else fs s x)"
    by blast
  have "list_all (\<lambda>d. \<not> occupied_by_file s1 d) ds"
    by (simp add: list_all_iff occupied_by_file_def s1(2))
  from make_directories_result[OF this] obtain s2 where
    s2: "make_directories ds s1 = (Inr (), s2)"
        "fs s2 = (\<lambda>x. if x \<in> set ds then Some Dir else fs s1 x)"
    by blast
  have "fs s2 = fs s1" unfolding s2(2) by (auto simp: fun_eq_iff s1(2))
  with s1 s2(1) show ?thesis by blast
qed

lemma create_directories_apply:
  "create_directories s = make_directories [''data'', ''logs'', ''reports'']
     (s\<lparr>stdout := stdout s @
        [(nl # folder @ '' CREATING DIRECTORIES'') @ [nl], rule_line 40 @ [nl]]\<rparr>)"
  by (simp add: create_directories_def)

lemma create_directories_twice:
  assumes "list_all (\<lambda>d. \<not> occupied_by_file s d) [''data'', ''logs'', ''reports'']"
  shows "\<exists>s1 s2. create_directories s = (Inr (), s1)
           \<and> create_directories s1 = (Inr (), s2)
           \<and> fs s2 = fs s1
           \<and> fs s1 = (\<lambda>x. if x \<in> set [''data'', ''logs'', ''reports''] then Some Dir
                           else fs s x)"
proof -
  let ?ds = "[''data'', ''logs'', ''reports'']"
  let ?hdr = "[(nl # folder @ '' CREATING DIRECTORIES'') @ [nl], rule_line 40 @ [nl]]"
  let ?s0 = "s\<lparr>stdout := stdout s @ ?hdr\<rparr>"
  have "list_all (\<lambda>d. \<not> occupied_by_file ?s0 d) ?ds"
    using assms by (simp add: occupied_by_file_def)
  from make_directories_result[OF this] obtain s1 where
    s1: "make_directories ?ds ?s0 = (Inr (), s1)"
        "fs s1 = (\<lambda>x. if x \<in> set ?ds then Some Dir else fs ?s0 x)"
    by blast
  let ?s1' = "s1\<lparr>stdout := stdout s1 @ ?hdr\<rparr>"
  have "list_all (\<lambda>d. \<not> occupied_by_file ?s1' d) ?ds"
    by (simp add: occupied_by_file_def s1(2))
  from make_directories_result[OF this] obtain s2 where
    s2: "make_directories ?ds ?s1' = (Inr (), s2)"
        "fs s2 = (\<lambda>x. if x \<in> set ?ds then Some Dir else fs ?s1' x)"
    by blast
  have "fs s2 = fs s1" unfolding s2(2) by (auto simp: fun_eq_iff s1(2))
  moreover have "create_directories s = (Inr (), s1)"
    using s1(1) by (simp only: create_directories_apply)
  moreover have "create_directories s1 = (Inr (), s2)"
    using s2(1) by (simp only: create_directories_apply)
  moreover have "fs s1 = (\<lambda>x. if x \<in> set ?ds then Some Dir else fs s x)"
    unfolding s1(2) by (auto simp: fun_eq_iff)
  ultimately show ?thesis by blast
qed










section \<open>The required keys\<close>




section \<open>The container deployment without a container engine\<close>

text \<open>
  Claim C2, on a host where no \<open>docker\<close> program exists. The probe raises
  \<open>FileNotFoundError\<close>. The handler of \<open>deploy_docker\<close> accepts \<open>CalledProcessError\<close> only,
  so the exception leaves \<open>deploy_docker\<close>, \<open>show_deployment_options\<close> and \<open>main\<close>: the
  message about the missing engine is not printed, the closing messages are not
  printed, and the exit status is one. No build and no run is attempted. (A probe that
  exits with a status other than zero is handled: see \<open>deploy_docker_probe_fails\<close>.)
\<close>

theorem absent_engine_is_not_handled:
  "spawn no_docker docker_probe = NoSuchProgram
   \<and> deploy_docker no_docker (typed []) =
       (Inl (FileNotFoundError ''docker''),
        \<lparr>stdin = [], 
         stdout = [(nl # whale @ '' DOCKER DEPLOYMENT'') @ [nl], rule_line 40 @ [nl]],
         fs = Map.empty, calls = [docker_probe]\<rparr>)
   \<and> fst (show_deployment_options no_docker (typed [''3''])) = Inl (FileNotFoundError ''docker'')
   \<and> fst (block [show_deployment_options no_docker, completion_report] (typed [''3'']))
       = Inl (FileNotFoundError ''docker'')
   \<and> exit_status (fst (block [show_deployment_options no_docker, completion_report]
                          (typed [''3'']))) = 1"
proof -
  have absent: "spawn no_docker docker_probe = NoSuchProgram"
    by (simp add: no_docker_def docker_probe_def)
  have h1: "stdin (typed [''3'']) \<noteq> []"
    by (simp add: typed_def unlines_def)
  have line: "strip (read_line (stdin (typed [''3'']))) = ''3''"
    by (simp add: typed_def read_line_unlines nl_def strip_def isspace_def)
  have docker: "deploy_docker no_docker (typed []) =
       (Inl (FileNotFoundError ''docker''),
        \<lparr>stdin = [],
         stdout = [(nl # whale @ '' DOCKER DEPLOYMENT'') @ [nl], rule_line 40 @ [nl]],
         fs = Map.empty, calls = [docker_probe]\<rparr>)"
    by (simp add: deploy_docker_no_engine[OF absent] typed_def unlines_def)
  have choice: "fst (show_deployment_options no_docker (typed [''3'']))
       = Inl (FileNotFoundError ''docker'')"
    by (simp add: show_deployment_options_choice[OF h1] line Let_def
          deploy_docker_no_engine[OF absent])
  then have tail: "fst (block [show_deployment_options no_docker, completion_report]
       (typed [''3''])) = Inl (FileNotFoundError ''docker'')"
    by (simp add: then_do_raised)
  show ?thesis using absent docker choice tail by (simp add: exit_status_def)
qed

section \<open>The keys of the written document\<close>

text \<open>
  Claim C3. Whatever the operator answers, the document that \<open>create_env_file\<close> writes
  holds the keys that \<open>env_template\<close> defines, each once and in the order of the
  template. A key is there also when its value is empty, since the entries do not
  depend on the answers.
\<close>

theorem document_keys_complete:
  assumes "fst (create_env_file s) = Inr ()"
  shows "\<exists>doc. env_document (snd (create_env_file s)) = Some doc
           \<and> document_keys doc = document_keys env_template
           \<and> distinct (document_keys doc)
           \<and> document_keys doc =
               [''OPENAI_API_KEY'', ''ANTHROPIC_API_KEY'', ''GROQ_API_KEY'',
                ''ALPACA_API_KEY'', ''ALPACA_SECRET_KEY'',
                ''AI_PRIMARY_MODEL'', ''AI_BACKUP_MODEL'', ''AI_RESEARCH_MODEL'',
                ''PAPER_TRADING'', ''STARTING_CASH'', ''MAX_POSITION_PCT'',
                ''STOP_LOSS_PCT'', ''MAX_DAILY_LOSS'',
                ''SLACK_WEBHOOK'', ''EMAIL_ALERTS'', ''EMAIL_FROM'', ''EMAIL_TO'',
                ''EMAIL_PASSWORD'',
                ''MARKET_CAP_MAX'', ''MIN_VOLUME'', ''TIMEZONE'', ''DATA_DIR'']"
proof -
  let ?doc = "collected_document (stdin s)"
  have doc: "env_document (snd (create_env_file s)) = Some ?doc"
    using assms by (rule env_document_collected)
  have keys: "document_keys ?doc = map fst (collected_entries (stdin s))"
    by (simp add: document_keys_def collected_document_entries)
  have same: "document_keys ?doc = document_keys env_template"
    unfolding keys collected_entries_def by (rule document_entries_env_template[symmetric])
  have listed: "map fst (collected_entries (stdin s)) =
               [''OPENAI_API_KEY'', ''ANTHROPIC_API_KEY'', ''GROQ_API_KEY'',
                ''ALPACA_API_KEY'', ''ALPACA_SECRET_KEY'',
                ''AI_PRIMARY_MODEL'', ''AI_BACKUP_MODEL'', ''AI_RESEARCH_MODEL'',
                ''PAPER_TRADING'', ''STARTING_CASH'', ''MAX_POSITION_PCT'',
                ''STOP_LOSS_PCT'', ''MAX_DAILY_LOSS'',
                ''SLACK_WEBHOOK'', ''EMAIL_ALERTS'', ''EMAIL_FROM'', ''EMAIL_TO'',
                ''EMAIL_PASSWORD'',
                ''MARKET_CAP_MAX'', ''MIN_VOLUME'', ''TIMEZONE'', ''DATA_DIR'']"
    by (simp add: collected_entries_def env_entries_def)
  have dist: "distinct (map fst (collected_entries (stdin s)))"
    unfolding listed by simp
  show ?thesis using doc same dist listed keys by simp
qed

theorem document_keys_complete_witness:
  "fst (create_env_file (typed blank_answers)) = Inr ()
   \<and> env_document (snd (create_env_file (typed blank_answers)))
       = Some (collected_document (stdin (typed blank_answers)))
   \<and> document_keys (collected_document (stdin (typed blank_answers)))
       = document_keys env_template
   \<and> distinct (document_keys (collected_document (stdin (typed blank_answers))))
   \<and> length (document_keys (collected_document (stdin (typed blank_answers)))) = 22"
proof -
  have ok: "fst (create_env_file (typed blank_answers)) = Inr ()"
    by (rule typed_returns) (simp_all add: blank_answers_def)
  have doc: "env_document (snd (create_env_file (typed blank_answers)))
       = Some (collected_document (stdin (typed blank_answers)))"
    using ok by (rule env_document_collected)
  from document_keys_complete [OF ok] obtain d where
    d: "env_document (snd (create_env_file (typed blank_answers))) = Some d"
       "document_keys d = document_keys env_template"
       "distinct (document_keys d)"
       "document_keys d =
               [''OPENAI_API_KEY'', ''ANTHROPIC_API_KEY'', ''GROQ_API_KEY'',
                ''ALPACA_API_KEY'', ''ALPACA_SECRET_KEY'',
                ''AI_PRIMARY_MODEL'', ''AI_BACKUP_MODEL'', ''AI_RESEARCH_MODEL'',
                ''PAPER_TRADING'', ''STARTING_CASH'', ''MAX_POSITION_PCT'',
                ''STOP_LOSS_PCT'', ''MAX_DAILY_LOSS'',
                ''SLACK_WEBHOOK'', ''EMAIL_ALERTS'', ''EMAIL_FROM'', ''EMAIL_TO'',
                ''EMAIL_PASSWORD'',
                ''MARKET_CAP_MAX'', ''MIN_VOLUME'', ''TIMEZONE'', ''DATA_DIR'']"
    by blast
  from d(1) doc have eq: "d = collected_document (stdin (typed blank_answers))" by simp
  have len: "length (document_keys d) = 22" unfolding d(4) by simp
  show ?thesis using ok doc d(2,3) len unfolding eq by simp
qed

section \<open>The version check\<close>

text \<open>
  Claim C4. When the interpreter is older than Python 3.9, \<open>main\<close> ends with
  \<open>SystemExit(1)\<close>, so the process leaves with a status other than zero; at that
  point no file has been written, no directory created, no child process started and
  nothing read from standard input.
\<close>

theorem old_interpreter_exits_first:
  assumes "version_below e 3 9"
  shows "fst (main e s) = Inl (SystemExit 1)
       \<and> exit_status (fst (main e s)) \<noteq> 0
       \<and> fs (snd (main e s)) = fs s
       \<and> calls (snd (main e s)) = calls s
       \<and> stdin (snd (main e s)) = stdin s"
  using assms by (simp add: main_def print_banner_state check_python_version_def exit_status_def)

theorem old_interpreter_exits_first_witness:
  "version_below old_python 3 9
   \<and> fst (main old_python (typed [])) = Inl (SystemExit 1)
   \<and> exit_status (fst (main old_python (typed []))) \<noteq> 0
   \<and> fs (snd (main old_python (typed []))) = fs (typed [])
   \<and> calls (snd (main old_python (typed []))) = calls (typed [])
   \<and> stdin (snd (main old_python (typed []))) = stdin (typed [])"
proof -
  have old: "version_below old_python 3 9"
    by (simp add: version_below_def old_python_def sample_env_def)
  show ?thesis using old old_interpreter_exits_first [OF old, of "typed []"]
    by (simp add: exit_status_def)
qed

section \<open>The starting capital\<close>





section \<open>A failed installation\<close>

text \<open>
  Claim C6. When pip ends with a status other than zero, \<open>install_dependencies\<close> prints
  the error and the captured error text and raises \<open>SystemExit(1)\<close>; nothing that
  follows it is run. For \<open>main\<close> this means: the exit status is one, no directory is
  created, and no child process other than pip is started.
\<close>

theorem failed_installation_is_fatal:
  assumes "spawn e (pip_command e) = Ran r t" and "returncode r \<noteq> 0"
  shows "install_dependencies e s =
           (Inl (SystemExit 1),
            s\<lparr>stdout := stdout s @
                [(nl # package @ '' INSTALLING DEPENDENCIES'') @ [nl],
                 rule_line 40 @ [nl],
                 (cross_mark @ '' Error installing dependencies: ''
                    @ exn_text e (CalledProcessError (pip_command e) (returncode r)
                                    (captured_out r) (captured_err r))) @ [nl],
                 (''Error output: '' @ captured_err r) @ [nl]],
              calls := calls s @ [pip_command e]\<rparr>)
       \<and> block (install_dependencies e # rest) s = install_dependencies e s
       \<and> fst (main e s) \<noteq> Inr ()
       \<and> exit_status (fst (main e s)) = 1
       \<and> fs (snd (main e s)) |` (- {''.env''}) = fs s |` (- {''.env''})
       \<and> (calls (snd (main e s)) = calls s
          \<or> calls (snd (main e s)) = calls s @ [pip_command e])"
proof -
  note failed = install_dependencies_failed[OF assms]
  have stop: "block (install_dependencies e # rest) s = install_dependencies e s"
    by (simp add: then_do_apply failed)
  have exit: "exit_status (fst (main e s)) = 1"
    using main_failed_installation[OF assms] by simp
  then have "fst (main e s) \<noteq> Inr ()"
    by (auto simp: exit_status_def)
  with failed stop main_failed_installation[OF assms, of s] show ?thesis
    by (simp only: simp_thms)
qed

theorem failed_installation_is_fatal_witness:
  "spawn broken_pip (pip_command broken_pip)
     = Ran \<lparr>returncode = 1, captured_out = [],
            captured_err = ''No matching distribution found''\<rparr> 2
   \<and> returncode \<lparr>returncode = 1, captured_out = [],
                  captured_err = ''No matching distribution found''\<rparr> \<noteq> 0
   \<and> fst (install_dependencies broken_pip (typed sample_answers)) = Inl (SystemExit 1)
   \<and> exit_status (fst (main broken_pip (typed sample_answers))) = 1
   \<and> fs (snd (main broken_pip (typed sample_answers))) |` (- {''.env''}) = Map.empty"
proof -
  have h1: "spawn broken_pip (pip_command broken_pip)
     = Ran \<lparr>returncode = 1, captured_out = [],
            captured_err = ''No matching distribution found''\<rparr> 2"
    by (simp add: broken_pip_def)
  have h2: "returncode \<lparr>returncode = 1, captured_out = [],
                  captured_err = ''No matching distribution found''\<rparr> \<noteq> 0"
    by simp
  from failed_installation_is_fatal [OF h1 h2, of "typed sample_answers"] h1 h2
  show ?thesis by (simp add: typed_def)
qed

section \<open>The smoke test\<close>



section \<open>An unknown deployment choice\<close>



section \<open>Creating the directories\<close>

text \<open>
  Claim C9. When no regular file has the name of a directory to create, creating the
  directories twice in a row returns both times, and the second run leaves the
  directory as the first run left it: every name asked for is a directory, once, and
  every other name is as before. This holds of the loop for every list of names and of
  \<open>create_directories\<close> with its three names.
\<close>

theorem provisioning_is_idempotent:
  "(list_all (\<lambda>d. \<not> occupied_by_file s d) ds \<longrightarrow>
      (\<exists>s1 s2. make_directories ds s = (Inr (), s1)
           \<and> make_directories ds s1 = (Inr (), s2)
           \<and> fs s2 = fs s1
           \<and> fs s1 = (\<lambda>x. if x \<in> set ds then Some Dir else fs s x)))
   \<and> (list_all (\<lambda>d. \<not> occupied_by_file s d) [''data'', ''logs'', ''reports''] \<longrightarrow>
      (\<exists>s1 s2. create_directories s = (Inr (), s1)
           \<and> create_directories s1 = (Inr (), s2)
           \<and> fs s2 = fs s1
           \<and> fs s1 = (\<lambda>x. if x \<in> set [''data'', ''logs'', ''reports''] then Some Dir
                           else fs s x)))"
  using make_directories_twice[of s ds] create_directories_twice[of s] by blast

theorem provisioning_is_idempotent_witness:
  "list_all (\<lambda>d. \<not> occupied_by_file (typed []) d) [''data'', ''logs'', ''reports'']
   \<and> (\<exists>s1 s2. make_directories [''data'', ''logs'', ''reports''] (typed []) = (Inr (), s1)
           \<and> make_directories [''data'', ''logs'', ''reports''] s1 = (Inr (), s2)
           \<and> fs s2 = fs s1
           \<and> fs s1 ''data'' = Some Dir \<and> fs s1 ''logs'' = Some Dir
           \<and> fs s1 ''reports'' = Some Dir \<and> fs s1 ''.env'' = None)
   \<and> (\<exists>s1 s2. create_directories (typed []) = (Inr (), s1)
           \<and> create_directories s1 = (Inr (), s2)
           \<and> fs s2 = fs s1
           \<and> fs s1 ''data'' = Some Dir)"
proof -
  have free: "list_all (\<lambda>d. \<not> occupied_by_file (typed []) d) [''data'', ''logs'', ''reports'']"
    by (simp add: occupied_by_file_def typed_def)
  from provisioning_is_idempotent [of "typed []" "[''data'', ''logs'', ''reports'']"] free
  obtain s1 s2 t1 t2 where
    m: "make_directories [''data'', ''logs'', ''reports''] (typed []) = (Inr (), s1)"
       "make_directories [''data'', ''logs'', ''reports''] s1 = (Inr (), s2)"
       "fs s2 = fs s1"
       "fs s1 = (\<lambda>x. if x \<in> set [''data'', ''logs'', ''reports''] then Some Dir
                       else fs (typed []) x)"
    and c: "create_directories (typed []) = (Inr (), t1)"
       "create_directories t1 = (Inr (), t2)"
       "fs t2 = fs t1"
       "fs t1 = (\<lambda>x. if x \<in> set [''data'', ''logs'', ''reports''] then Some Dir
                       else fs (typed []) x)"
    by blast
  have "fs s1 ''data'' = Some Dir \<and> fs s1 ''logs'' = Some Dir
           \<and> fs s1 ''reports'' = Some Dir \<and> fs s1 ''.env'' = None"
    unfolding m(4) by (simp add: typed_def)
  moreover have "fs t1 ''data'' = Some Dir" unfolding c(4) by simp
  ultimately show ?thesis using free m(1,2,3) c(1,2,3) by blast
qed

section \<open>The settings that are not asked for\<close>

text \<open>
  Claim C10. The keys for which \<open>create_env_file\<close> asks nothing have the values of the
  template in every written document: paper trading is on, e-mail alerts are off and
  the risk parameters are 0.15, 0.15 and 0.05, whatever the operator answers.
\<close>

theorem fixed_settings:
  assumes "fst (create_env_file s) = Inr ()"
  shows "env_value (snd (create_env_file s)) ''PAPER_TRADING'' = Some ''true''
       \<and> env_value (snd (create_env_file s)) ''EMAIL_ALERTS'' = Some ''false''
       \<and> env_value (snd (create_env_file s)) ''MAX_POSITION_PCT'' = Some ''0.15''
       \<and> env_value (snd (create_env_file s)) ''STOP_LOSS_PCT'' = Some ''0.15''
       \<and> env_value (snd (create_env_file s)) ''MAX_DAILY_LOSS'' = Some ''0.05''
       \<and> env_value (snd (create_env_file s)) ''AI_PRIMARY_MODEL'' = Some ''gpt-4o''
       \<and> env_value (snd (create_env_file s)) ''AI_BACKUP_MODEL'' = Some ''gpt-4''
       \<and> env_value (snd (create_env_file s)) ''AI_RESEARCH_MODEL''
           = Some ''o3-deep-research-2025-06-26''
       \<and> env_value (snd (create_env_file s)) ''MARKET_CAP_MAX'' = Some ''300000000''
       \<and> env_value (snd (create_env_file s)) ''MIN_VOLUME'' = Some ''50000''
       \<and> env_value (snd (create_env_file s)) ''TIMEZONE'' = Some ''US/Eastern''
       \<and> env_value (snd (create_env_file s)) ''DATA_DIR'' = Some ''data''"
  by (simp add: env_value_collected[OF assms] collected_entries_def env_entries_def)

theorem fixed_settings_witness:
  "fst (create_env_file (typed sample_answers)) = Inr ()
   \<and> env_value (snd (create_env_file (typed sample_answers))) ''PAPER_TRADING'' = Some ''true''
   \<and> env_value (snd (create_env_file (typed sample_answers))) ''EMAIL_ALERTS'' = Some ''false''
   \<and> env_value (snd (create_env_file (typed sample_answers))) ''MAX_POSITION_PCT'' = Some ''0.15''
   \<and> env_value (snd (create_env_file (typed sample_answers))) ''STOP_LOSS_PCT'' = Some ''0.15''
   \<and> env_value (snd (create_env_file (typed sample_answers))) ''MAX_DAILY_LOSS'' = Some ''0.05''"
proof -
  have ok: "fst (create_env_file (typed sample_answers)) = Inr ()"
    by (rule typed_returns) (simp_all add: sample_answers_def nl_def)
  from fixed_settings [OF ok] ok show ?thesis by simp
qed

end
